theory Spec2Isabelle
  imports Complex_Main
begin

section \<open>Data model (types.ts)\<close>

text \<open>
  A JavaScript \<^verbatim>\<open>number\<close> is carried around by the workflow and never computed
  with; it is modelled as a real number.
\<close>

type_synonym number = real

record Coordinates =
  x :: number
  y :: number
  z :: number

datatype EvidenceType = Biological | Weapon | Trace | Document | Person | Other

text \<open>
  The fields \<^verbatim>\<open>id\<close> and \<^verbatim>\<open>type\<close> of \<^verbatim>\<open>EvidenceItem\<close> and \<^verbatim>\<open>theory\<close> of
  a hypothesis carry a suffix, the plain names being taken.
\<close>

record EvidenceItem =
  id_item :: string
  name :: string
  type_item :: EvidenceType
  description :: string
  position :: Coordinates
  significance :: number

record TimelineEvent =
  timeOffset :: string
  description :: string
  confidence :: number

record Hypothesis =
  theory_text :: string
  probability :: number

record LabelledValue =
  label :: string
  value_of :: number

record Stats =
  typeDistribution :: "LabelledValue list"
  confidenceMetrics :: "LabelledValue list"

record CrimeSceneAnalysis =
  summary :: string
  locationDetails :: string
  evidence :: "EvidenceItem list"
  timeline :: "TimelineEvent list"
  hypotheses :: "Hypothesis list"
  stats :: Stats
  imageUrls :: "string list option"

datatype AnalysisStatus = IDLE | UPLOADING | ANALYZING | COMPLETE | ERROR

record UserProfile =
  name :: string
  email :: string
  badgeId :: string

section \<open>The component and its event loop\<close>

text \<open>
  A value thrown by a collaborator, and the settlement of a promise: \<open>Inl\<close> is a
  rejection, \<open>Inr\<close> the value it resolves to.
\<close>

datatype js_error = JsError string

type_synonym 'a settled = "js_error + 'a"

text \<open>
  \<^verbatim>\<open>handleUpload\<close> is an async function: it runs up to an \<^verbatim>\<open>await\<close>, and the rest of
  its body runs later, when the timer or the promise it waits for has fired. A task is
  such a suspended rest, with the local variables it closes over (\<^verbatim>\<open>files\<close> and
  \<^verbatim>\<open>newImageUrls\<close>):
  \<^item> \<open>AwaitDelay\<close>: suspended at the 1000 ms pause;
  \<^item> \<open>AwaitAnalysis\<close>: \<^verbatim>\<open>analyzeCrimeSceneImages(files)\<close> has been called and has not
    settled yet;
  \<^item> \<open>AwaitRevert\<close>: the 3000 ms timer of the catch block is running.
\<close>

datatype 'f task =
    AwaitDelay "'f list" "string list"
  | AwaitAnalysis "'f list" "string list"
  | AwaitRevert

text \<open>
  What the component does to the outside: console output, report dispatch, alerts, and a
  rejection of the promise of a handler that nothing catches.
\<close>

datatype effect =
    ConsoleError js_error
  | ReportCall CrimeSceneAnalysis UserProfile string
  | Alert string
  | UnhandledRejection js_error

text \<open>
  The four \<^verbatim>\<open>useState\<close> cells of \<^verbatim>\<open>App\<close>, the suspended rests of \<^verbatim>\<open>handleUpload\<close>
  calls, and the effects so far. \<open>'f\<close> is the type of a \<^verbatim>\<open>File\<close>. The state
  writes of one uninterrupted stretch of a handler are taken together, as React applies
  them in one render.
\<close>

record 'f App =
  user :: "UserProfile option"
  status :: AnalysisStatus
  analysisData :: "CrimeSceneAnalysis option"
  uploadedImages :: "string list"
  pending :: "'f task list"
  effects :: "effect list"

definition init :: "'f App" where
  "init = \<lparr>user = None, status = IDLE, analysisData = None, uploadedImages = [],
           pending = [], effects = []\<rparr>"

subsection \<open>Handlers\<close>

definition handleLogin :: "UserProfile \<Rightarrow> 'f App \<Rightarrow> 'f App" where
  "handleLogin userInfo s = s\<lparr>user := Some userInfo\<rparr>"

definition handleLogout :: "'f App \<Rightarrow> 'f App" where
  "handleLogout s =
     s\<lparr>user := None, analysisData := None, uploadedImages := [], status := IDLE\<rparr>"

definition onReset :: "'f App \<Rightarrow> 'f App" where
  "onReset s = s\<lparr>analysisData := None, uploadedImages := [], status := IDLE\<rparr>"

text \<open>
  \<^verbatim>\<open>handleUpload\<close>, first part (up to the pause). \<^verbatim>\<open>URL.createObjectURL\<close> is the
  browser's; it is a parameter, total on files.
\<close>

definition handleUpload_begin :: "('f \<Rightarrow> string) \<Rightarrow> 'f list \<Rightarrow> 'f App \<Rightarrow> 'f App" where
  "handleUpload_begin createObjectURL files s =
     (let newImageUrls = map createObjectURL files
      in s\<lparr>status := UPLOADING,
           uploadedImages := uploadedImages s @ newImageUrls,
           pending := pending s @ [AwaitDelay files newImageUrls]\<rparr>)"

text \<open>Second part: after the pause, up to the call of the analysis collaborator.\<close>

definition handleUpload_delayed :: "'f list \<Rightarrow> string list \<Rightarrow> 'f App \<Rightarrow> 'f App" where
  "handleUpload_delayed files newImageUrls s =
     s\<lparr>status := ANALYZING,
       pending := pending s @ [AwaitAnalysis files newImageUrls]\<rparr>"

text \<open>
  Third part: the rest of the \<^verbatim>\<open>try\<close> block once the collaborator has settled, and
  the \<^verbatim>\<open>catch\<close> block. The result is \<open>Inl\<close> when an exception leaves the function.
\<close>

definition try_catch :: "js_error + 'a \<Rightarrow> (js_error \<Rightarrow> js_error + 'a) \<Rightarrow> js_error + 'a" where
  "try_catch body handler = (case body of Inl e \<Rightarrow> handler e | Inr v \<Rightarrow> Inr v)"

definition handleUpload_settled ::
  "string list \<Rightarrow> CrimeSceneAnalysis settled \<Rightarrow> 'f App \<Rightarrow> js_error + 'f App" where
  "handleUpload_settled newImageUrls outcome s =
     try_catch
       (case outcome of
          Inl thrown \<Rightarrow> Inl thrown
        | Inr data \<Rightarrow>
            (let dataWithImages = data\<lparr>imageUrls := Some newImageUrls\<rparr>
             in Inr (s\<lparr>analysisData := Some dataWithImages, status := COMPLETE\<rparr>)))
       (\<lambda>error.
          Inr (s\<lparr>effects := effects s @ [ConsoleError error],
                 status := ERROR,
                 pending := pending s @ [AwaitRevert]\<rparr>))"

text \<open>The callback of the 3000 ms timer.\<close>

definition revert_timer :: "'f App \<Rightarrow> 'f App" where
  "revert_timer s = s\<lparr>status := IDLE\<rparr>"

text \<open>A suspended rest that is resumed leaves the list of the suspended ones.\<close>

definition resume :: "nat \<Rightarrow> 'f App \<Rightarrow> 'f App" where
  "resume i s = s\<lparr>pending := take i (pending s) @ drop (Suc i) (pending s)\<rparr>"

text \<open>
  \<^verbatim>\<open>handleUpload\<close> run from its call to its return with nothing else in between: each
  suspended rest is resumed before any other event. \<open>analyze\<close> is the behaviour of
  \<^verbatim>\<open>analyzeCrimeSceneImages\<close>, which by its contract settles: it resolves to a result
  or rejects with an error. The value is the list of states after each of the three
  parts, or \<open>Inl\<close> when an exception leaves the function.
\<close>

definition handleUpload ::
  "('f \<Rightarrow> string) \<Rightarrow> ('f list \<Rightarrow> CrimeSceneAnalysis settled) \<Rightarrow> 'f list \<Rightarrow> 'f App
     \<Rightarrow> js_error + 'f App list" where
  "handleUpload createObjectURL analyze files s =
     (let i = length (pending s);
          newImageUrls = map createObjectURL files;
          s1 = handleUpload_begin createObjectURL files s;
          s2 = handleUpload_delayed files newImageUrls (resume i s1)
      in case handleUpload_settled newImageUrls (analyze files) (resume i s2) of
           Inl e \<Rightarrow> Inl e
         | Inr s3 \<Rightarrow> Inr [s1, s2, s3])"

text \<open>
  \<^verbatim>\<open>handleDownloadReport\<close>. \<^verbatim>\<open>email || user.email\<close> takes the user's address when
  the argument is missing or the empty string. The call of the dispatch collaborator and
  the alert are recorded as effects; \<open>generateAndSendReport\<close> is the collaborator's
  answer.
\<close>

definition targetEmail_of :: "string option \<Rightarrow> UserProfile \<Rightarrow> string" where
  "targetEmail_of email_arg u =
     (case email_arg of
        None \<Rightarrow> email u
      | Some e \<Rightarrow> if e = [] then email u else e)"

definition handleDownloadReport ::
  "(CrimeSceneAnalysis \<Rightarrow> UserProfile \<Rightarrow> string \<Rightarrow> bool) \<Rightarrow> string option \<Rightarrow> 'f App \<Rightarrow> 'f App" where
  "handleDownloadReport generateAndSendReport email_arg s =
     (case analysisData s of
        None \<Rightarrow> s
      | Some data \<Rightarrow>
          (case user s of
             None \<Rightarrow> s
           | Some u \<Rightarrow>
               (let targetEmail = targetEmail_of email_arg u;
                    success = generateAndSendReport data u targetEmail
                in s\<lparr>effects := effects s @
                      [ReportCall data u targetEmail,
                       Alert (if success
                              then ''Report encrypted and transmitted to secure SMTP gateway: ''
                                   @ targetEmail
                              else ''Transmission failed. Check console for details.'')]\<rparr>)))"

subsection \<open>What is rendered, and the events\<close>

text \<open>
  The render function shows the login form when there is no user; otherwise the logout
  button, and the uploader in the four statuses other than \<open>COMPLETE\<close>, or else the
  dashboard when there is a result.
\<close>

definition shows_login :: "'f App \<Rightarrow> bool" where
  "shows_login s = (user s = None)"

definition shows_uploader :: "'f App \<Rightarrow> bool" where
  "shows_uploader s =
     (user s \<noteq> None \<and>
      (status s = IDLE \<or> status s = UPLOADING \<or> status s = ANALYZING \<or> status s = ERROR))"

definition shows_dashboard :: "'f App \<Rightarrow> bool" where
  "shows_dashboard s =
     (user s \<noteq> None \<and>
      \<not> (status s = IDLE \<or> status s = UPLOADING \<or> status s = ANALYZING \<or> status s = ERROR) \<and>
      analysisData s \<noteq> None)"

text \<open>
  The user's actions, and the timers and the promise that fire; a number is the position
  of the suspended rest in \<open>pending\<close>. \<open>DownloadReport\<close> carries the answer of the
  dispatch collaborator.
\<close>

datatype 'f event =
    Login UserProfile
  | Logout
  | Upload "'f list"
  | Reset
  | DownloadReport "string option" bool
  | DelayElapsed nat
  | AnalysisSettled nat "CrimeSceneAnalysis settled"
  | RevertElapsed nat

text \<open>
  One event; \<open>None\<close> when the control is not rendered or no such rest is suspended.
  The uploader component is not part of the sources at hand: \<open>accepts\<close> says in which
  statuses it passes a selection of files on to \<^verbatim>\<open>onUpload\<close>.
\<close>

fun step ::
  "('f \<Rightarrow> string) \<Rightarrow> (AnalysisStatus \<Rightarrow> bool) \<Rightarrow> 'f event \<Rightarrow> 'f App \<Rightarrow> 'f App option" where
  "step createObjectURL accepts (Login userInfo) s =
     (if shows_login s then Some (handleLogin userInfo s) else None)"
| "step createObjectURL accepts Logout s =
     (if user s \<noteq> None then Some (handleLogout s) else None)"
| "step createObjectURL accepts (Upload files) s =
     (if shows_uploader s \<and> accepts (status s)
      then Some (handleUpload_begin createObjectURL files s) else None)"
| "step createObjectURL accepts Reset s =
     (if shows_dashboard s then Some (onReset s) else None)"
| "step createObjectURL accepts (DownloadReport email_arg success) s =
     (if shows_dashboard s
      then Some (handleDownloadReport (\<lambda>data u target. success) email_arg s) else None)"
| "step createObjectURL accepts (DelayElapsed i) s =
     (if i < length (pending s)
      then (case pending s ! i of
              AwaitDelay files newImageUrls \<Rightarrow>
                Some (handleUpload_delayed files newImageUrls (resume i s))
            | _ \<Rightarrow> None)
      else None)"
| "step createObjectURL accepts (AnalysisSettled i outcome) s =
     (if i < length (pending s)
      then (case pending s ! i of
              AwaitAnalysis files newImageUrls \<Rightarrow>
                (case handleUpload_settled newImageUrls outcome (resume i s) of
                   Inl e \<Rightarrow> Some ((resume i s)\<lparr>effects := effects s @ [UnhandledRejection e]\<rparr>)
                 | Inr s' \<Rightarrow> Some s')
            | _ \<Rightarrow> None)
      else None)"
| "step createObjectURL accepts (RevertElapsed i) s =
     (if i < length (pending s)
      then (case pending s ! i of
              AwaitRevert \<Rightarrow> Some (revert_timer (resume i s))
            | _ \<Rightarrow> None)
      else None)"

fun run ::
  "('f \<Rightarrow> string) \<Rightarrow> (AnalysisStatus \<Rightarrow> bool) \<Rightarrow> 'f event list \<Rightarrow> 'f App \<Rightarrow> 'f App option" where
  "run createObjectURL accepts [] s = Some s"
| "run createObjectURL accepts (e # es) s =
     (case step createObjectURL accepts e s of
        None \<Rightarrow> None
      | Some s' \<Rightarrow> run createObjectURL accepts es s')"

text \<open>
  The same, where a selection of files is taken only while no rest of an earlier
  \<^verbatim>\<open>handleUpload\<close> call is suspended.
\<close>

fun run_exclusive ::
  "('f \<Rightarrow> string) \<Rightarrow> (AnalysisStatus \<Rightarrow> bool) \<Rightarrow> 'f event list \<Rightarrow> 'f App \<Rightarrow> 'f App option" where
  "run_exclusive createObjectURL accepts [] s = Some s"
| "run_exclusive createObjectURL accepts (Upload files # es) s =
     (if pending s = []
      then (case step createObjectURL accepts (Upload files) s of
              None \<Rightarrow> None
            | Some s' \<Rightarrow> run_exclusive createObjectURL accepts es s')
      else None)"
| "run_exclusive createObjectURL accepts (e # es) s =
     (case step createObjectURL accepts e s of
        None \<Rightarrow> None
      | Some s' \<Rightarrow> run_exclusive createObjectURL accepts es s')"

fun is_rejection :: "'f event \<Rightarrow> bool" where
  "is_rejection (AnalysisSettled i (Inl e)) = True"
| "is_rejection ev = False"

subsection \<open>Sample inputs\<close>

definition sample_url :: "string \<Rightarrow> string" where
  "sample_url f = ''blob:'' @ f"

definition idle_only :: "AnalysisStatus \<Rightarrow> bool" where
  "idle_only st = (st = IDLE)"

definition officer :: UserProfile where
  "officer = \<lparr>name = ''Ada'', email = ''ada@example.org'', badgeId = ''B-1''\<rparr>"

definition sample_data :: CrimeSceneAnalysis where
  "sample_data =
     \<lparr>summary = ''s'', locationDetails = ''l'', evidence = [], timeline = [], hypotheses = [],
      stats = \<lparr>typeDistribution = [], confidenceMetrics = []\<rparr>, imageUrls = None\<rparr>"

definition sample_resolves :: "string list \<Rightarrow> CrimeSceneAnalysis settled" where
  "sample_resolves files = Inr sample_data"

definition sample_rejects :: "string list \<Rightarrow> CrimeSceneAnalysis settled" where
  "sample_rejects files = Inl (JsError ''unavailable'')"

definition sample_refuses :: "CrimeSceneAnalysis \<Rightarrow> UserProfile \<Rightarrow> string \<Rightarrow> bool" where
  "sample_refuses data u target = False"

definition completed_state :: "string App" where
  "completed_state =
     \<lparr>user = Some officer, status = COMPLETE,
      analysisData = Some (sample_data\<lparr>imageUrls := Some [''blob:a'']\<rparr>),
      uploadedImages = [''blob:a''], pending = [], effects = []\<rparr>"

text \<open>A submission that succeeds.\<close>

definition successful_upload :: "string event list" where
  "successful_upload =
     [Login officer, Upload [''a''], DelayElapsed 0, AnalysisSettled 0 (Inr sample_data)]"

text \<open>A submission whose analysis fails.\<close>

definition failed_upload :: "string event list" where
  "failed_upload =
     [Login officer, Upload [''a''], DelayElapsed 0,
      AnalysisSettled 0 (Inl (JsError ''unavailable''))]"

text \<open>The same, then the revert timer, then a second submission that succeeds.\<close>

definition retry_after_failure :: "string event list" where
  "retry_after_failure =
     failed_upload @
     [RevertElapsed 0, Upload [''b''], DelayElapsed 0, AnalysisSettled 0 (Inr sample_data)]"

text \<open>
  The user logs out while the analysis of a first submission is running, logs in again
  and submits a second selection; the first analysis resolves during the pause of the
  second submission.
\<close>

definition overlapping_uploads :: "string event list" where
  "overlapping_uploads =
     [Login officer, Upload [''a''], DelayElapsed 0, Logout, Login officer, Upload [''b''],
      AnalysisSettled 0 (Inr sample_data), DelayElapsed 0]"

text \<open>The same, and the analysis of the second submission fails.\<close>

definition overlapping_failure :: "string event list" where
  "overlapping_failure =
     overlapping_uploads @ [AnalysisSettled 0 (Inl (JsError ''unavailable''))]"

text \<open>A logout while the analysis is running, and the analysis resolving after it.\<close>

definition logout_during_analysis :: "string event list" where
  "logout_during_analysis = [Login officer, Upload [''a''], DelayElapsed 0, Logout]"

definition resolved_after_logout :: "string event list" where
  "resolved_after_logout = logout_during_analysis @ [AnalysisSettled 0 (Inr sample_data)]"

text \<open>
  A submission up to the call of the collaborator, the state it leaves, the state after
  the collaborator has rejected, and that state after a logout and a login, the revert
  timer still running.
\<close>

definition awaiting_analysis :: "string event list" where
  "awaiting_analysis = [Login officer, Upload [''a''], DelayElapsed 0]"

definition analyzing_state :: "string App" where
  "analyzing_state =
     \<lparr>user = Some officer, status = ANALYZING, analysisData = None,
      uploadedImages = [''blob:a''], pending = [AwaitAnalysis [''a''] [''blob:a'']],
      effects = []\<rparr>"

definition failed_state :: "string App" where
  "failed_state =
     \<lparr>user = Some officer, status = ERROR, analysisData = None,
      uploadedImages = [''blob:a''], pending = [AwaitRevert],
      effects = [ConsoleError (JsError ''unavailable'')]\<rparr>"

definition relogged_state :: "string App" where
  "relogged_state =
     \<lparr>user = Some officer, status = IDLE, analysisData = None,
      uploadedImages = [], pending = [AwaitRevert],
      effects = [ConsoleError (JsError ''unavailable'')]\<rparr>"

text \<open>
  After a failed analysis the user logs out and in again and submits a second selection
  while the revert timer of the first is running; its analysis resolves before the timer
  fires.
\<close>

definition later_upload_before_timer :: "string event list" where
  "later_upload_before_timer =
     failed_upload @
     [Logout, Login officer, Upload [''b''], DelayElapsed 1,
      AnalysisSettled 1 (Inr sample_data), RevertElapsed 0]"

subsection \<open>Observations and invariants\<close>

definition has_result :: "'f App \<Rightarrow> bool" where
  "has_result s = (analysisData s \<noteq> None)"

definition stored_imageUrls :: "'f App \<Rightarrow> string list option" where
  "stored_imageUrls s = (case analysisData s of None \<Rightarrow> None | Some d \<Rightarrow> imageUrls d)"

text \<open>
  While submissions do not overlap, at most one rest is suspended, and no result is
  stored while one is.
\<close>

definition exclusive_inv :: "'f App \<Rightarrow> bool" where
  "exclusive_inv s =
     ((analysisData s \<noteq> None) = (status s = COMPLETE) \<and>
      (pending s \<noteq> [] \<longrightarrow> analysisData s = None) \<and>
      length (pending s) \<le> 1)"

text \<open>While no analysis has failed, no revert timer is running.\<close>

definition unfailed_inv :: "'f App \<Rightarrow> bool" where
  "unfailed_inv s =
     ((status s = IDLE \<longrightarrow> uploadedImages s = []) \<and> status s \<noteq> ERROR \<and>
      AwaitRevert \<notin> set (pending s))"

section \<open>Shared facts\<close>

lemmas upload_defs = handleUpload_def handleUpload_begin_def handleUpload_delayed_def
  handleUpload_settled_def try_catch_def resume_def Let_def

lemmas handler_defs = handleLogin_def handleLogout_def onReset_def handleUpload_begin_def
  handleUpload_delayed_def handleUpload_settled_def try_catch_def resume_def revert_timer_def
  handleDownloadReport_def shows_login_def shows_uploader_def shows_dashboard_def Let_def

lemmas sample_defs = init_def sample_url_def idle_only_def officer_def sample_data_def
  sample_resolves_def sample_rejects_def sample_refuses_def completed_state_def
  successful_upload_def failed_upload_def retry_after_failure_def overlapping_uploads_def
  overlapping_failure_def logout_during_analysis_def resolved_after_logout_def has_result_def
  stored_imageUrls_def awaiting_analysis_def analyzing_state_def failed_state_def
  relogged_state_def later_upload_before_timer_def

lemma single_pending:
  "length p \<le> Suc 0 \<Longrightarrow> i < length p \<Longrightarrow> take i p @ drop (Suc i) p = []"
  by (cases p) auto

lemma exclusive_inv_step:
  assumes "exclusive_inv s" and "step cou accepts e s = Some s'"
    and "\<And>files. e = Upload files \<Longrightarrow> pending s = []"
  shows "exclusive_inv s'"
proof (cases e)
  case (AnalysisSettled i outcome)
  with assms show ?thesis
    by (cases outcome)
       (auto simp: exclusive_inv_def handler_defs single_pending
             split: if_splits task.splits)
next
  case (DelayElapsed i)
  with assms show ?thesis
    by (auto simp: exclusive_inv_def handler_defs single_pending split: if_splits task.splits)
next
  case (RevertElapsed i)
  with assms show ?thesis
    by (auto simp: exclusive_inv_def handler_defs single_pending split: if_splits task.splits)
qed (use assms in \<open>auto simp: exclusive_inv_def handler_defs split: if_splits option.splits\<close>)

lemma exclusive_inv_run:
  "exclusive_inv s \<Longrightarrow> run_exclusive cou accepts evs s = Some s' \<Longrightarrow> exclusive_inv s'"
proof (induction evs arbitrary: s)
  case Nil
  then show ?case by simp
next
  case (Cons e es)
  obtain t where st: "step cou accepts e s = Some t"
    and rest: "run_exclusive cou accepts es t = Some s'"
    and excl: "\<And>files. e = Upload files \<Longrightarrow> pending s = []"
    using Cons.prems(2) by (cases e) (auto split: if_splits option.splits)
  from exclusive_inv_step [OF Cons.prems(1) st excl] have "exclusive_inv t" .
  from Cons.IH [OF this rest] show ?case .
qed

lemma unfailed_inv_step:
  assumes "unfailed_inv s" and "step cou accepts e s = Some s'" and "\<not> is_rejection e"
  shows "unfailed_inv s'"
proof (cases e)
  case (AnalysisSettled i outcome)
  with assms show ?thesis
    by (cases outcome)
       (auto simp: unfailed_inv_def handler_defs split: if_splits task.splits
             dest: in_set_takeD in_set_dropD)
next
  case (DelayElapsed i)
  with assms show ?thesis
    by (auto simp: unfailed_inv_def handler_defs split: if_splits task.splits
             dest: in_set_takeD in_set_dropD)
next
  case (RevertElapsed i)
  with assms show ?thesis
    by (auto simp: unfailed_inv_def split: if_splits task.splits dest: nth_mem)
qed (use assms in \<open>auto simp: unfailed_inv_def handler_defs split: if_splits option.splits\<close>)

lemma unfailed_inv_run:
  "unfailed_inv s \<Longrightarrow> run cou accepts evs s = Some s' \<Longrightarrow> \<not> list_ex is_rejection evs \<Longrightarrow>
   unfailed_inv s'"
  by (induction evs arbitrary: s) (auto split: option.splits dest: unfailed_inv_step)

text \<open>
  The uninterrupted submission is the run of its three events: the call, the pause
  elapsing and the collaborator settling.
\<close>

lemma handleUpload_is_run:
  assumes "shows_uploader s" and "accepts (status s)"
    and "handleUpload cou analyze files s = Inr [s1, s2, s3]"
  shows "run cou accepts
           [Upload files, DelayElapsed (length (pending s)),
            AnalysisSettled (length (pending s)) (analyze files)] s = Some s3"
  using assms
  by (cases "analyze files") (auto simp: upload_defs shows_uploader_def nth_append)

text \<open>No run records a rejection that nothing has caught.\<close>

lemma step_no_unhandled:
  assumes "UnhandledRejection r \<notin> set (effects s)" and "step cou accepts e s = Some s'"
  shows "UnhandledRejection r \<notin> set (effects s')"
proof (cases e)
  case (AnalysisSettled i outcome)
  with assms show ?thesis
    by (cases outcome) (auto simp: handler_defs split: if_splits task.splits)
qed (use assms in \<open>auto simp: handler_defs split: if_splits option.splits task.splits\<close>)

lemma run_no_unhandled:
  "UnhandledRejection r \<notin> set (effects s) \<Longrightarrow> run cou accepts evs s = Some s' \<Longrightarrow>
   UnhandledRejection r \<notin> set (effects s')"
  by (induction evs arbitrary: s) (auto split: option.splits dest: step_no_unhandled)

text \<open>The sample runs, evaluated.\<close>

lemma run_successful_upload:
  "run sample_url idle_only successful_upload init = Some completed_state"
  by (simp add: sample_defs handler_defs)


lemma run_logout_during_analysis:
  "run sample_url idle_only logout_during_analysis init =
     Some \<lparr>user = None, status = IDLE, analysisData = None, uploadedImages = [],
           pending = [AwaitAnalysis [''a''] [''blob:a'']], effects = []\<rparr>"
  by (simp add: sample_defs handler_defs)

lemma run_awaiting_analysis:
  "run_exclusive sample_url idle_only awaiting_analysis init = Some analyzing_state"
  by (simp add: sample_defs handler_defs)

lemma step_analysis_fails:
  "step sample_url idle_only (AnalysisSettled 0 (Inl (JsError ''unavailable''))) analyzing_state
     = Some failed_state"
  by (simp add: sample_defs handler_defs)

lemma run_relogin_after_failure:
  "run_exclusive sample_url idle_only [Logout, Login officer] failed_state = Some relogged_state"
  by (simp add: sample_defs handler_defs)

section \<open>Submitting images\<close>

text \<open>
  C1. For a non-empty list of files, a submission started in status Idle sets the status to
  Uploading, then to Analyzing, and returns with the status Complete or Error, exactly one
  of the two: Error when the analysis collaborator rejects, Complete when it resolves.
\<close>

theorem upload_status_sequence:
  assumes "files \<noteq> []" and "status s = IDLE"
  shows "\<exists>s1 s2 s3. handleUpload cou analyze files s = Inr [s1, s2, s3] \<and>
           status s1 = UPLOADING \<and> status s2 = ANALYZING \<and>
           status s3 = (if isl (analyze files) then ERROR else COMPLETE) \<and>
           ((status s3 = COMPLETE) \<noteq> (status s3 = ERROR))"
  by (cases "analyze files") (simp_all add: upload_defs)

theorem upload_status_sequence_witness:
  "[''a''] \<noteq> [] \<and> status (init :: string App) = IDLE \<and>
   (\<exists>s1 s2 s3. handleUpload sample_url sample_resolves [''a''] init = Inr [s1, s2, s3] \<and>
      status s1 = UPLOADING \<and> status s2 = ANALYZING \<and> status s3 = COMPLETE)"
proof -
  have ne: "[''a''] \<noteq> []" by simp
  have idle: "status (init :: string App) = IDLE" by (simp add: init_def)
  from upload_status_sequence
         [where files = "[''a'']" and s = "init :: string App" and cou = sample_url
            and analyze = sample_resolves, OF ne idle]
  show ?thesis using idle by (auto simp: sample_resolves_def)
qed

text \<open>
  C2, as amended. When the analysis collaborator resolves, the image-reference list of the
  stored result is the list of the references created by this submission, one for each
  file, in the order of the files. These are the entries that the submission has appended
  to the accumulated list.
\<close>

theorem stored_result_has_new_urls:
  assumes "analyze files = Inr data"
  shows "\<exists>s1 s2 s3. handleUpload cou analyze files s = Inr [s1, s2, s3] \<and>
           analysisData s3 = Some (data\<lparr>imageUrls := Some (map cou files)\<rparr>) \<and>
           uploadedImages s3 = uploadedImages s @ map cou files"
  using assms by (simp add: upload_defs)

theorem stored_result_has_new_urls_witness:
  "sample_resolves [''a''] = Inr sample_data \<and>
   (\<exists>s1 s2 s3. handleUpload sample_url sample_resolves [''a''] (init :: string App)
        = Inr [s1, s2, s3] \<and>
      stored_imageUrls s3 = Some [''blob:a''] \<and> uploadedImages s3 = [''blob:a''])"
proof -
  have r: "sample_resolves [''a''] = Inr sample_data" by (simp add: sample_resolves_def)
  from stored_result_has_new_urls
         [where analyze = sample_resolves and files = "[''a'']" and data = sample_data
            and cou = sample_url and s = "init :: string App", OF r]
  show ?thesis using r by (auto simp: sample_defs)
qed

text \<open>
  C2 as stated fails. When the user has logged out while the analysis was running, the
  accumulated list is empty at the moment the result is stored, and the result holds the
  reference of the submission. When an earlier submission is still represented in the
  accumulated list, the result of the next one holds only the new reference.
\<close>

theorem stored_urls_not_accumulated:
  "map_option stored_imageUrls (run sample_url idle_only resolved_after_logout init)
     = Some (Some [''blob:a'']) \<and>
   map_option uploadedImages (run sample_url idle_only resolved_after_logout init)
     = Some [] \<and>
   map_option stored_imageUrls (run sample_url idle_only retry_after_failure init)
     = Some (Some [''blob:b'']) \<and>
   map_option uploadedImages (run sample_url idle_only retry_after_failure init)
     = Some [''blob:a'', ''blob:b'']"
  by (simp add: sample_defs handler_defs)

text \<open>
  C5. Whatever the files and whatever the analysis collaborator does, no exception leaves
  the submission: it returns normally, and when the collaborator rejects, the status on
  return is Error. The same holds for the part that runs when the collaborator settles,
  in whatever state it finds the component.
\<close>

theorem upload_never_throws:
  "(\<exists>tr. handleUpload cou analyze files s = Inr tr \<and>
          (isl (analyze files) \<longrightarrow> status (last tr) = ERROR)) \<and>
   (\<exists>t'. handleUpload_settled urls outcome t = Inr t' \<and>
          (isl outcome \<longrightarrow> status t' = ERROR))"
  by (cases "analyze files"; cases outcome) (simp_all add: upload_defs)

theorem upload_never_throws_witness:
  "isl (sample_rejects [''a'']) \<and>
   (\<exists>tr. handleUpload sample_url sample_rejects [''a''] (init :: string App) = Inr tr \<and>
          status (last tr) = ERROR) \<and>
   (\<exists>t'. handleUpload_settled [''blob:a''] (sample_rejects [''a'']) (init :: string App)
            = Inr t' \<and> status t' = ERROR)"
  using upload_never_throws
          [of sample_url sample_rejects "[''a'']" "init :: string App" "[''blob:a'']"
              "sample_rejects [''a'']" "init :: string App"]
  by (simp add: sample_rejects_def)

text \<open>
  C6, as amended. When the analysis collaborator fails, the catch block sets the status to
  Error at once and starts the revert timer, and the timer sets the status to Idle in
  whatever state it fires; neither writes the stored result. Where no submission starts
  while a rest of an earlier one is suspended, no result is stored at the failure, none at
  any later point at which the timer is still running, and none when it fires, which
  gives status Idle.
\<close>

theorem failure_path:
  assumes reach: "run_exclusive cou accepts evs init = Some s"
    and fails: "step cou accepts (AnalysisSettled i (Inl err)) s = Some s'"
    and later: "run_exclusive cou accepts mid s' = Some t"
    and timer: "AwaitRevert \<in> set (pending t)"
  shows "status s' = ERROR \<and> analysisData s' = None \<and> pending s' = [AwaitRevert] \<and>
         analysisData t = None \<and>
         (\<exists>t'. step cou accepts (RevertElapsed 0) t = Some t' \<and>
                status t' = IDLE \<and> analysisData t' = None) \<and>
         (\<exists>u'. handleUpload_settled urls (Inl err) u = Inr u' \<and> status u' = ERROR \<and>
                analysisData u' = analysisData u \<and> pending u' = pending u @ [AwaitRevert]) \<and>
         status (revert_timer u) = IDLE \<and> analysisData (revert_timer u) = analysisData u"
proof -
  have "exclusive_inv (init :: 'a App)"
    by (simp add: exclusive_inv_def init_def)
  from exclusive_inv_run [OF this reach] have inv_s: "exclusive_inv s" .
  from exclusive_inv_step [OF inv_s fails] have inv_s': "exclusive_inv s'" by simp
  from exclusive_inv_run [OF inv_s' later] have inv_t: "exclusive_inv t" .
  from fails inv_s have at_failure: "status s' = ERROR \<and> pending s' = [AwaitRevert]"
    by (auto simp: exclusive_inv_def handler_defs single_pending split: if_splits task.splits)
  with inv_s' have none_s': "analysisData s' = None"
    by (simp add: exclusive_inv_def)
  from inv_t timer have pt: "pending t = [AwaitRevert]"
    by (cases "pending t") (auto simp: exclusive_inv_def)
  with inv_t have none_t: "analysisData t = None"
    by (simp add: exclusive_inv_def)
  from pt none_t have fire: "\<exists>t'. step cou accepts (RevertElapsed 0) t = Some t' \<and>
      status t' = IDLE \<and> analysisData t' = None"
    by (simp add: revert_timer_def resume_def)
  have part: "\<exists>u'. handleUpload_settled urls (Inl err) u = Inr u' \<and> status u' = ERROR \<and>
      analysisData u' = analysisData u \<and> pending u' = pending u @ [AwaitRevert]"
    by (simp add: handleUpload_settled_def try_catch_def)
  from at_failure none_s' none_t fire part show ?thesis
    by (simp add: revert_timer_def)
qed

theorem failure_path_witness:
  "run_exclusive sample_url idle_only awaiting_analysis init = Some analyzing_state \<and>
   step sample_url idle_only (AnalysisSettled 0 (Inl (JsError ''unavailable''))) analyzing_state
     = Some failed_state \<and>
   run_exclusive sample_url idle_only [Logout, Login officer] failed_state
     = Some relogged_state \<and>
   AwaitRevert \<in> set (pending relogged_state) \<and>
   status failed_state = ERROR \<and> analysisData failed_state = None \<and>
   analysisData relogged_state = None \<and>
   (\<exists>t'. step sample_url idle_only (RevertElapsed 0) relogged_state = Some t' \<and>
          status t' = IDLE \<and> analysisData t' = None)"
proof -
  have timer: "AwaitRevert \<in> set (pending relogged_state)"
    by (simp add: relogged_state_def)
  from failure_path
         [OF run_awaiting_analysis step_analysis_fails run_relogin_after_failure timer]
  show ?thesis
    using run_awaiting_analysis step_analysis_fails run_relogin_after_failure timer
    by blast
qed

text \<open>
  Without that proviso it is not enough that no result is stored at the failure: a
  submission started while the timer is running can store one before the timer fires,
  and the timer then leaves status Idle with a stored result.
\<close>

lemma later_result_survives_timer:
  "map_option has_result (run sample_url idle_only failed_upload init) = Some False \<and>
   map_option status (run sample_url idle_only later_upload_before_timer init) = Some IDLE \<and>
   map_option has_result (run sample_url idle_only later_upload_before_timer init) = Some True"
  by (simp add: sample_defs handler_defs)

text \<open>
  C6 as stated fails: when the result of an earlier, overlapping submission has been
  stored in the meantime, the failure of the later one leaves it in place, in status
  Error and in status Idle after the timer.
\<close>

theorem failure_keeps_earlier_result:
  "map_option status (run sample_url idle_only overlapping_failure init) = Some ERROR \<and>
   map_option has_result (run sample_url idle_only overlapping_failure init) = Some True \<and>
   map_option status (run sample_url idle_only (overlapping_failure @ [RevertElapsed 0]) init)
     = Some IDLE \<and>
   map_option has_result
     (run sample_url idle_only (overlapping_failure @ [RevertElapsed 0]) init) = Some True"
  by (simp add: sample_defs handler_defs)



section \<open>Invariants of the reachable states\<close>




text \<open>
  The accumulated list is emptied by logout and by reset. In every state reached from the
  initial one by a run in which no analysis has been rejected, whatever the order of the
  events, the list is empty whenever the status is Idle or Error.
\<close>

theorem no_images_when_idle:
  assumes "run cou accepts evs init = Some s" and "\<not> list_ex is_rejection evs"
    and "status s = IDLE \<or> status s = ERROR"
  shows "uploadedImages s = []"
proof -
  have "unfailed_inv (init :: 'a App)"
    by (simp add: unfailed_inv_def init_def)
  from unfailed_inv_run [OF this assms(1,2)] assms(3) show ?thesis
    by (auto simp: unfailed_inv_def)
qed

theorem no_images_when_idle_witness:
  "run sample_url idle_only logout_during_analysis init \<noteq> None \<and>
   \<not> list_ex is_rejection logout_during_analysis \<and>
   map_option status (run sample_url idle_only logout_during_analysis init) = Some IDLE \<and>
   map_option uploadedImages (run sample_url idle_only logout_during_analysis init) = Some []"
proof -
  have ok: "\<not> list_ex is_rejection logout_during_analysis"
    by (simp add: logout_during_analysis_def)
  from no_images_when_idle [OF run_logout_during_analysis ok]
  show ?thesis using ok by (simp add: run_logout_during_analysis)
qed

text \<open>
  C4. The catch block of the submission is the one path on which the list is not empty in
  status Idle or Error: after a rejected analysis the status is Error, and Idle once the
  timer has fired, and the reference created by the submission is still in the list.
\<close>

theorem images_kept_after_failure:
  "map_option status (run sample_url idle_only failed_upload init) = Some ERROR \<and>
   map_option uploadedImages (run sample_url idle_only failed_upload init)
     = Some [''blob:a''] \<and>
   map_option status (run sample_url idle_only (failed_upload @ [RevertElapsed 0]) init)
     = Some IDLE \<and>
   map_option uploadedImages (run sample_url idle_only (failed_upload @ [RevertElapsed 0]) init)
     = Some [''blob:a'']"
  by (simp add: sample_defs handler_defs)

section \<open>Report dispatch\<close>

text \<open>
  C7. In a state without a stored result or without a user, a dispatch request changes
  nothing: the dispatch collaborator is not called and no alert is shown.
\<close>

theorem dispatch_without_precondition:
  "analysisData s = None \<or> user s = None \<Longrightarrow> handleDownloadReport g email_arg s = s"
  by (auto simp: handleDownloadReport_def split: option.splits)

theorem dispatch_without_precondition_witness:
  "(analysisData (handleLogin officer init :: string App) = None \<or>
    user (handleLogin officer init :: string App) = None) \<and>
   effects (handleDownloadReport sample_refuses None (handleLogin officer init :: string App))
     = []"
proof -
  have pre: "analysisData (handleLogin officer init :: string App) = None \<or>
             user (handleLogin officer init :: string App) = None"
    by (simp add: handleLogin_def init_def)
  from dispatch_without_precondition [OF pre, of sample_refuses None]
  show ?thesis using pre by (simp add: handleLogin_def init_def)
qed

text \<open>
  C8. A dispatch request leaves user, status, stored result, accumulated list and
  suspended rests as they are, whatever the dispatch collaborator answers. When it answers
  false, the collaborator has been called once and one alert, the failure message, is
  shown: there is no second attempt.
\<close>

theorem dispatch_frame:
  "user (handleDownloadReport g email_arg s) = user s \<and>
   status (handleDownloadReport g email_arg s) = status s \<and>
   analysisData (handleDownloadReport g email_arg s) = analysisData s \<and>
   uploadedImages (handleDownloadReport g email_arg s) = uploadedImages s \<and>
   pending (handleDownloadReport g email_arg s) = pending s \<and>
   (analysisData s = Some d \<and> user s = Some u \<and> \<not> g d u (targetEmail_of email_arg u) \<longrightarrow>
      effects (handleDownloadReport g email_arg s) =
        effects s @ [ReportCall d u (targetEmail_of email_arg u),
                     Alert ''Transmission failed. Check console for details.''])"
  by (simp add: handleDownloadReport_def Let_def split: option.splits)

theorem dispatch_frame_witness:
  "analysisData completed_state = Some (sample_data\<lparr>imageUrls := Some [''blob:a'']\<rparr>) \<and>
   user completed_state = Some officer \<and>
   \<not> sample_refuses (sample_data\<lparr>imageUrls := Some [''blob:a'']\<rparr>) officer
       (targetEmail_of (Some []) officer) \<and>
   status (handleDownloadReport sample_refuses (Some []) completed_state) = COMPLETE \<and>
   effects (handleDownloadReport sample_refuses (Some []) completed_state) =
     [ReportCall (sample_data\<lparr>imageUrls := Some [''blob:a'']\<rparr>) officer ''ada@example.org'',
      Alert ''Transmission failed. Check console for details.'']"
  using dispatch_frame
          [of sample_refuses "Some []" completed_state
              "sample_data\<lparr>imageUrls := Some [''blob:a'']\<rparr>" officer]
  by (simp add: completed_state_def sample_refuses_def targetEmail_of_def officer_def)

section \<open>Logout\<close>

text \<open>
  C9. From every state, logout gives status Idle, no user, no analysis result and an empty
  list of image references.
\<close>

theorem logout_clears_everything:
  "status (handleLogout s) = IDLE \<and> user (handleLogout s) = None \<and>
   analysisData (handleLogout s) = None \<and> uploadedImages (handleLogout s) = []"
  by (simp add: handleLogout_def)

end
